theory Spec2Isabelle
  imports Main "HOL-Library.Sublist"
begin

section \<open>Export lists of thermopack: \<^verbatim>\<open>addon/pyUtils/exports/export_list.py\<close>\<close>

text \<open>
  The module turns a registry of exported symbols into linker control files. This theory
  embeds its functions one by one. Python strings are \<^typ>\<open>string\<close>; the compiler and
  linker identities are the module's integer constants, so they are \<^typ>\<open>int\<close> here and
  a value outside the named constants can reach every function, as it can in the source.
\<close>

subsection \<open>Identities\<close>

text \<open>\<^verbatim>\<open>GNU = 1; IFORT = 2; PGF90 = 3; GENERIC = 4\<close>\<close>

definition GNU :: int where "GNU = 1"
definition IFORT :: int where "IFORT = 2"
definition PGF90 :: int where "PGF90 = 3"
definition GENERIC :: int where "GENERIC = 4"

text \<open>\<^verbatim>\<open>LD_GCC = 1; LD_CLANG = 2; LD_MSVC = 3\<close>\<close>

definition LD_GCC :: int where "LD_GCC = 1"
definition LD_CLANG :: int where "LD_CLANG = 2"
definition LD_MSVC :: int where "LD_MSVC = 3"

subsection \<open>Export declarations and the state of the module\<close>

text \<open>
  An entry of \<^verbatim>\<open>exports\<close> is the dictionary
  \<^verbatim>\<open>{'method': method, 'module': module, 'isBindC': isBindC}\<close>; a \<^verbatim>\<open>module\<close> of
  \<^verbatim>\<open>None\<close> is \<^term>\<open>None\<close>.
\<close>

record export_info =
  "method" :: string
  "module" :: "string option"
  isBindC :: bool

text \<open>
  The state the module reads and writes: the global list \<^verbatim>\<open>exports\<close> and the files on
  disk, a map from path to content. Every path is taken to be writable: the source has no
  handler for a failing \<^verbatim>\<open>open\<close>, and no property below is about one.
\<close>

record world =
  exports :: "export_info list"
  files :: "string \<rightharpoonup> string"

subsection \<open>\<^verbatim>\<open>get_export_statement\<close>\<close>

text \<open>
  \<^verbatim>\<open>export_statement\<close> starts as the empty string and is returned as it is when the
  module is present and no branch of the \<^verbatim>\<open>if/elif\<close> chain matches the compiler.
\<close>

definition get_export_statement :: "int \<Rightarrow> export_info \<Rightarrow> string" where
  "get_export_statement compiler info =
     (case module info of
        None \<Rightarrow>
          (if isBindC info then method info else method info @ ''_'')
      | Some m \<Rightarrow>
          (if compiler = GNU then ''__'' @ m @ ''_MOD_'' @ method info
           else if compiler = IFORT then m @ ''_mp_'' @ method info @ ''_''
           else if compiler = PGF90 then m @ ''_'' @ method info @ ''_''
           else if compiler = GENERIC then ''*'' @ method info @ ''*''
           else ''''))"

subsection \<open>\<^verbatim>\<open>get_export_header\<close> and \<^verbatim>\<open>get_export_footer\<close>\<close>

text \<open>
  \<^verbatim>\<open>now\<close> is the value of \<^verbatim>\<open>datetime.today().isoformat()\<close>, the one input the
  function reads from outside; it is a parameter here. A linker that matches no branch
  leaves the header at its first two lines.
\<close>

definition get_export_header :: "int \<Rightarrow> string \<Rightarrow> string" where
  "get_export_header linker now =
     (let header = ''# File generated by thermopack/addon/pyUtils/exports/export_list.py'';
          header = header @ ''\<newline># Time stamp: '' @ now
      in if linker = LD_GCC then
           header @ ''\<newline>libthermopack {\<newline># Explicit list of symbols to be exported\<newline>  global:''
         else if linker = LD_CLANG then
           header @ ''\<newline># Explicit list of symbols to be exported''
         else if linker = LD_MSVC then
           header @ ''\<newline>; @NAME@.def : Declares the module parameters.\<newline>\<newline>LIBRARY\<newline>\<newline>EXPORTS''
         else header)"

text \<open>\<^verbatim>\<open>footer\<close> starts as \<^verbatim>\<open>None\<close> and is set for \<^verbatim>\<open>LD_GCC\<close> only.\<close>

definition get_export_footer :: "int \<Rightarrow> string option" where
  "get_export_footer linker =
     (if linker = LD_GCC then Some ''\<newline>  local: *;      # hide everything else\<newline>};''
      else None)"

subsection \<open>\<^verbatim>\<open>write_def_file\<close>\<close>

text \<open>
  The loop \<^verbatim>\<open>for i in range(len(exports))\<close> reads the entries in index order and
  appends to \<^verbatim>\<open>lines\<close>; a linker that matches neither branch appends nothing. The tab
  character is \<^term>\<open>CHR 0x09\<close>.
\<close>

fun export_loop :: "int \<Rightarrow> int \<Rightarrow> export_info list \<Rightarrow> string list \<Rightarrow> string list" where
  "export_loop compiler linker [] lines = lines"
| "export_loop compiler linker (info # rest) lines =
     (let export_statement = get_export_statement compiler info
      in export_loop compiler linker rest
           (if linker = LD_GCC then lines @ [[CHR 0x09] @ export_statement @ '';'']
            else if linker = LD_CLANG \<or> linker = LD_MSVC then
              lines @ [[CHR 0x09] @ export_statement]
            else lines))"

text \<open>
  The value of \<^verbatim>\<open>lines\<close> when the file is opened: the header, what the loop appended,
  and the footer when there is one.
\<close>

definition def_file_lines :: "int \<Rightarrow> int \<Rightarrow> string \<Rightarrow> export_info list \<Rightarrow> string list" where
  "def_file_lines compiler linker now exps =
     (let lines = [];
          header = get_export_header linker now;
          lines = lines @ [header];
          lines = export_loop compiler linker exps lines;
          footer = get_export_footer linker
      in case footer of None \<Rightarrow> lines | Some f \<Rightarrow> lines @ [f])"

text \<open>
  The loop \<^verbatim>\<open>for line in lines: f.write(line); f.write("\n")\<close>, on the content written
  so far.
\<close>

fun write_lines :: "string list \<Rightarrow> string \<Rightarrow> string" where
  "write_lines [] f = f"
| "write_lines (line # lines) f = write_lines lines ((f @ line) @ ''\<newline>'')"

text \<open>The text of the file: \<^verbatim>\<open>open(filename, "w")\<close> starts from the empty file.\<close>

definition def_file_text :: "int \<Rightarrow> int \<Rightarrow> string \<Rightarrow> export_info list \<Rightarrow> string" where
  "def_file_text compiler linker now exps =
     write_lines (def_file_lines compiler linker now exps) []"

definition write_def_file :: "int \<Rightarrow> int \<Rightarrow> string \<Rightarrow> string \<Rightarrow> world \<Rightarrow> world" where
  "write_def_file compiler linker filename now w =
     w\<lparr>files := (files w)(filename \<mapsto> def_file_text compiler linker now (exports w))\<rparr>"

subsection \<open>\<^verbatim>\<open>append_export\<close> and the registry\<close>

text \<open>
  \<^verbatim>\<open>exports.append({'method': method, 'module': module, 'isBindC': isBindC})\<close>. The
  defaults \<^verbatim>\<open>module=None\<close> and \<^verbatim>\<open>isBindC=False\<close> are written out at every call below.
\<close>

definition append_export :: "string \<Rightarrow> string option \<Rightarrow> bool \<Rightarrow> world \<Rightarrow> world" where
  "append_export meth modl bindc w =
     w\<lparr>exports := exports w @ [\<lparr>method = meth, module = modl, isBindC = bindc\<rparr>]\<rparr>"

text \<open>
  The arguments of the module's 112 calls of \<^verbatim>\<open>append_export\<close>, in the order of the
  source (lines 84 to 219).
\<close>

definition registrations :: "(string \<times> string option \<times> bool) list" where
  "registrations =
    [
     (''thermopack_init_c'', None, True),
     (''thermopack_init_c'', None, True),
     (''thermopack_pressure_c'', None, True),
     (''thermopack_specific_volume_c'', None, True),
     (''thermopack_tpflash_c'', None, True),
     (''thermopack_uvflash_c'', None, True),
     (''thermopack_hpflash_c'', None, True),
     (''thermopack_spflash_c'', None, True),
     (''thermopack_bubt_c'', None, True),
     (''thermopack_bubp_c'', None, True),
     (''thermopack_dewt_c'', None, True),
     (''thermopack_dewp_c'', None, True),
     (''thermopack_zfac_c'', None, True),
     (''thermopack_enthalpy_c'', None, True),
     (''thermopack_entropy_c'', None, True),
     (''thermopack_wilsonk_c'', None, True),
     (''thermopack_wilsonki_c'', None, True),
     (''thermopack_getcriticalparam_c'', None, True),
     (''thermopack_moleweight_c'', None, True),
     (''thermopack_compmoleweight_c'', None, True),
     (''thermopack_puresat_t_c'', None, True),
     (''thermopack_entropy_tv_c'', None, True),
     (''thermopack_twophase_dhdt_c'', None, True),
     (''thermopack_guess_phase_c'', None, True),
     (''thermopack_thermo_c'', None, True),
     (''get_phase_flags_c'', None, True),
     (''thermopack_getkij'', None, False),
     (''thermopack_setkijandji'', None, False),
     (''thermopack_gethvparam'', None, False),
     (''thermopack_sethvparam'', None, False),
     (''thermopack_get_volume_shift_parameters'', None, False),
     (''thermopack_set_volume_shift_parameters'', None, False),
     (''get_bp_term'', Some ''binaryplot'', False),
     (''vllebinaryxy'', Some ''binaryplot'', False),
     (''global_binary_plot'', Some ''binaryplot'', False),
     (''comp_index_active'', Some ''compdata'', False),
     (''comp_name_active'', Some ''compdata'', False),
     (''calccriticaltv'', Some ''critical'', False),
     (''specificvolume'', Some ''eos'', False),
     (''zfac'', Some ''eos'', False),
     (''thermo'', Some ''eos'', False),
     (''entropy'', Some ''eos'', False),
     (''enthalpy'', Some ''eos'', False),
     (''compmoleweight'', Some ''eos'', False),
     (''idealenthalpysingle'', Some ''eos'', False),
     (''init_thermo'', Some ''eoslibinit'', False),
     (''init_cubic'', Some ''eoslibinit'', False),
     (''init_cpa'', Some ''eoslibinit'', False),
     (''init_pcsaft'', Some ''eoslibinit'', False),
     (''init_saftvrmie'', Some ''eoslibinit'', False),
     (''init_quantum_cubic'', Some ''eoslibinit'', False),
     (''init_tcpr'', Some ''eoslibinit'', False),
     (''init_quantum_saftvrmie'', Some ''eoslibinit'', False),
     (''init_extcsp'', Some ''eoslibinit'', False),
     (''init_lee_kesler'', Some ''eoslibinit'', False),
     (''init_multiparameter'', Some ''eoslibinit'', False),
     (''init_pets'', Some ''eoslibinit'', False),
     (''init_volume_translation'', Some ''eoslibinit'', False),
     (''redefine_critical_parameters'', Some ''eoslibinit'', False),
     (''internal_energy'', Some ''eostv'', False),
     (''entropytv'', Some ''eostv'', False),
     (''pressure'', Some ''eostv'', False),
     (''thermotv'', Some ''eostv'', False),
     (''enthalpytv'', Some ''eostv'', False),
     (''free_energy'', Some ''eostv'', False),
     (''chemical_potential'', Some ''eostv'', False),
     (''virial_coefficients'', Some ''eostv'', False),
     (''secondvirialcoeffmatrix'', Some ''eostv'', False),
     (''binarythirdvirialcoeffmatrix'', Some ''eostv'', False),
     (''isobar'', Some ''isolines'', False),
     (''isotherm'', Some ''isolines'', False),
     (''isenthalp'', Some ''isolines'', False),
     (''isentrope'', Some ''isolines'', False),
     (''setphtolerance'', Some ''ph_solver'', False),
     (''twophasephflash'', Some ''ph_solver'', False),
     (''twophasepsflash'', Some ''ps_solver'', False),
     (''get_saftvrmie_eps_kij'', Some ''saftvrmie_containers'', False),
     (''set_saftvrmie_eps_kij'', Some ''saftvrmie_containers'', False),
     (''get_saftvrmie_sigma_lij'', Some ''saftvrmie_containers'', False),
     (''set_saftvrmie_sigma_lij'', Some ''saftvrmie_containers'', False),
     (''get_saftvrmie_lr_gammaij'', Some ''saftvrmie_containers'', False),
     (''set_saftvrmie_lr_gammaij'', Some ''saftvrmie_containers'', False),
     (''get_saftvrmie_pure_fluid_param'', Some ''saftvrmie_containers'', False),
     (''set_saftvrmie_pure_fluid_param'', Some ''saftvrmie_containers'', False),
     (''cpa_get_kij'', Some ''saft_interface'', False),
     (''cpa_set_kij'', Some ''saft_interface'', False),
     (''pc_saft_get_kij'', Some ''saft_interface'', False),
     (''pc_saft_set_kij_asym'', Some ''saft_interface'', False),
     (''enable_hs'', Some ''saftvrmie_options'', False),
     (''enable_a1'', Some ''saftvrmie_options'', False),
     (''enable_a2'', Some ''saftvrmie_options'', False),
     (''enable_a3'', Some ''saftvrmie_options'', False),
     (''enable_chain'', Some ''saftvrmie_options'', False),
     (''safe_bubt'', Some ''saturation'', False),
     (''safe_bubp'', Some ''saturation'', False),
     (''safe_dewt'', Some ''saturation'', False),
     (''safe_dewp'', Some ''saturation'', False),
     (''envelopeplot'', Some ''saturation_curve'', False),
     (''solid_init'', Some ''solideos'', False),
     (''solidenvelopeplot'', Some ''solid_saturation'', False),
     (''sound_velocity_2ph'', Some ''speed_of_sound'', False),
     (''guessphase'', Some ''thermo_utils'', False),
     (''rgas'', Some ''thermopack_constants'', False),
     (''tptmin'', Some ''thermopack_constants'', False),
     (''tppmin'', Some ''thermopack_constants'', False),
     (''add_eos'', Some ''thermopack_var'', False),
     (''delete_eos'', Some ''thermopack_var'', False),
     (''activate_model'', Some ''thermopack_var'', False),
     (''get_eos_identification'', Some ''thermopack_var'', False),
     (''twophasetpflash'', Some ''tp_solver'', False),
     (''twophasesvflash'', Some ''sv_solver'', False),
     (''twophaseuvflash'', Some ''uv_solver'', False)
    ]"

text \<open>
  Loading the module: \<^verbatim>\<open>exports = []\<close>, then the calls one after the other. The
  files are those on disk when the module is loaded.
\<close>

definition module_init :: "(string \<rightharpoonup> string) \<Rightarrow> world" where
  "module_init fs =
     fold (\<lambda>(meth, modl, bindc). append_export meth modl bindc) registrations
       \<lparr>exports = [], files = fs\<rparr>"

subsection \<open>The entry point\<close>

text \<open>
  The body of \<^verbatim>\<open>if __name__ == "__main__"\<close>: three calls of \<^verbatim>\<open>write_def_file\<close>, each
  reading the clock once.
\<close>

definition main :: "string \<Rightarrow> string \<Rightarrow> string \<Rightarrow> world \<Rightarrow> world" where
  "main now1 now2 now3 w =
     (let w = write_def_file GENERIC LD_GCC ''libthermopack_export.version'' now1 w;
          w = write_def_file GENERIC LD_CLANG ''libthermopack_export.symbols'' now2 w;
          w = write_def_file IFORT LD_MSVC ''thermopack.def'' now3 w
      in w)"

text \<open>A run of the script: the module is loaded, then the entry point runs.\<close>

definition script :: "string \<Rightarrow> string \<Rightarrow> string \<Rightarrow> (string \<rightharpoonup> string) \<Rightarrow> world" where
  "script now1 now2 now3 fs = main now1 now2 now3 (module_init fs)"

text \<open>
  A sequence of generation calls, each a compiler, a linker, a path and the time it
  reads, run in order.
\<close>

definition generate_all :: "(int \<times> int \<times> string \<times> string) list \<Rightarrow> world \<Rightarrow> world" where
  "generate_all calls w =
     fold (\<lambda>(compiler, linker, filename, now). write_def_file compiler linker filename now) calls w"

section \<open>Basic facts\<close>

lemmas compiler_defs = GNU_def IFORT_def PGF90_def GENERIC_def
lemmas linker_defs = LD_GCC_def LD_CLANG_def LD_MSVC_def

lemma linker_distinct:
  "LD_GCC \<noteq> LD_CLANG" "LD_GCC \<noteq> LD_MSVC" "LD_CLANG \<noteq> LD_GCC"
  "LD_CLANG \<noteq> LD_MSVC" "LD_MSVC \<noteq> LD_GCC" "LD_MSVC \<noteq> LD_CLANG"
  by (simp_all add: linker_defs)

lemma export_loop_eq:
  "export_loop compiler linker exps lines =
     lines @ (if linker = LD_GCC then
                map (\<lambda>e. [CHR 0x09] @ get_export_statement compiler e @ '';'') exps
              else if linker = LD_CLANG \<or> linker = LD_MSVC then
                map (\<lambda>e. [CHR 0x09] @ get_export_statement compiler e) exps
              else [])"
  by (induction exps arbitrary: lines) (simp_all add: Let_def)

lemma write_lines_eq:
  "write_lines ls f = f @ concat (map (\<lambda>l. l @ ''\<newline>'') ls)"
  by (induction ls arbitrary: f) simp_all

lemma def_file_text_concat:
  "def_file_text compiler linker now exps =
     concat (map (\<lambda>l. l @ ''\<newline>'') (def_file_lines compiler linker now exps))"
  by (simp add: def_file_text_def write_lines_eq)

lemma def_file_lines_gcc:
  "def_file_lines compiler LD_GCC now exps =
     get_export_header LD_GCC now
       # map (\<lambda>e. [CHR 0x09] @ get_export_statement compiler e @ '';'') exps
       @ [''\<newline>  local: *;      # hide everything else\<newline>};'']"
  by (simp add: def_file_lines_def export_loop_eq get_export_footer_def)

lemma def_file_lines_clang:
  "def_file_lines compiler LD_CLANG now exps =
     get_export_header LD_CLANG now
       # map (\<lambda>e. [CHR 0x09] @ get_export_statement compiler e) exps"
  by (simp add: def_file_lines_def export_loop_eq get_export_footer_def linker_defs)

lemma def_file_lines_msvc:
  "def_file_lines compiler LD_MSVC now exps =
     get_export_header LD_MSVC now
       # map (\<lambda>e. [CHR 0x09] @ get_export_statement compiler e) exps"
  by (simp add: def_file_lines_def export_loop_eq get_export_footer_def linker_defs)

lemma def_file_lines_other:
  "linker \<notin> {LD_GCC, LD_CLANG, LD_MSVC} \<Longrightarrow>
     def_file_lines compiler linker now exps = [get_export_header linker now]"
  by (simp add: def_file_lines_def export_loop_eq get_export_footer_def)

lemma exports_fold_append_export:
  "exports (fold (\<lambda>(meth, modl, bindc). append_export meth modl bindc) rs w) =
     exports w @ map (\<lambda>(meth, modl, bindc). \<lparr>method = meth, module = modl, isBindC = bindc\<rparr>) rs"
  by (induction rs arbitrary: w) (auto simp: append_export_def)

lemma exports_module_init:
  "exports (module_init fs) =
     map (\<lambda>(meth, modl, bindc). \<lparr>method = meth, module = modl, isBindC = bindc\<rparr>) registrations"
  by (simp add: module_init_def exports_fold_append_export)

lemma files_fold_append_export:
  "files (fold (\<lambda>(meth, modl, bindc). append_export meth modl bindc) rs w) = files w"
  by (induction rs arbitrary: w) (auto simp: append_export_def)

lemma files_module_init: "files (module_init fs) = fs"
  by (simp add: module_init_def files_fold_append_export)

lemma registrations_shape:
  "list_all (\<lambda>(meth, modl, bindc). \<not> (modl \<noteq> None \<and> bindc)) registrations"
  by (simp only: registrations_def list.pred_inject case_prod_conv simp_thms option.distinct)

lemma exports_write_def_file:
  "exports (write_def_file compiler linker filename now w) = exports w"
  by (simp add: write_def_file_def)

lemma files_write_def_file:
  "files (write_def_file compiler linker filename now w) =
     (files w)(filename \<mapsto> def_file_text compiler linker now (exports w))"
  by (simp add: write_def_file_def)

lemma not_sublist_append_hd:
  assumes a: "\<not> sublist p a" and b: "\<not> sublist p b"
    and hd: "b \<noteq> []" "hd b \<notin> set (tl p)"
  shows "\<not> sublist p (a @ b)"
proof
  assume "sublist p (a @ b)"
  with a b obtain p1 p2 where p: "p = p1 @ p2" and s: "suffix p1 a" and pre: "prefix p2 b"
    by (auto simp: sublist_append)
  show False
  proof (cases "p1 = [] \<or> p2 = []")
    case True
    with p s pre a b show False
      by (auto dest: suffix_imp_sublist prefix_imp_sublist)
  next
    case False
    then obtain x p1' y p2' where "p1 = x # p1'" "p2 = y # p2'"
      by (cases p1; cases p2) auto
    with p pre hd show False
      by (auto simp: prefix_def)
  qed
qed

lemma not_sublist_append_last:
  assumes a: "\<not> sublist p a" and b: "\<not> sublist p b"
    and last: "a \<noteq> []" "last a \<notin> set (butlast p)"
  shows "\<not> sublist p (a @ b)"
proof
  assume "sublist p (a @ b)"
  with a b obtain p1 p2 where p: "p = p1 @ p2" and s: "suffix p1 a" and pre: "prefix p2 b"
    by (auto simp: sublist_append)
  show False
  proof (cases "p1 = [] \<or> p2 = []")
    case True
    with p s pre a b show False
      by (auto dest: suffix_imp_sublist prefix_imp_sublist)
  next
    case False
    then have "p1 \<noteq> []" "p2 \<noteq> []" by simp_all
    from s obtain a' where "a = a' @ p1" by (auto simp: suffix_def)
    with \<open>p1 \<noteq> []\<close> have "last a = last p1" by simp
    moreover from p \<open>p1 \<noteq> []\<close> \<open>p2 \<noteq> []\<close> have "last p1 \<in> set (butlast p)"
      by (simp add: butlast_append)
    ultimately show False using last by simp
  qed
qed

lemma not_sublist_concat:
  assumes "p \<noteq> []"
    and "\<And>x. x \<in> set xs \<Longrightarrow> \<not> sublist p x \<and> x \<noteq> [] \<and> last x \<notin> set (butlast p)"
  shows "\<not> sublist p (concat xs)"
  using assms(2)
proof (induction xs)
  case Nil
  with assms(1) show ?case by simp
next
  case (Cons x xs)
  then show ?case
    by (simp add: not_sublist_append_last)
qed

lemma no_local_in_fixed_text:
  "\<not> sublist ''local:'' ''# File generated by thermopack/addon/pyUtils/exports/export_list.py\<newline># Time stamp: ''"
  "\<not> sublist ''local:'' ''\<newline># Explicit list of symbols to be exported''"
  "\<not> sublist ''local:'' ''\<newline>; @NAME@.def : Declares the module parameters.\<newline>\<newline>LIBRARY\<newline>\<newline>EXPORTS''"
  by (simp_all add: sublist_Cons_right)

lemma no_local_in_header:
  assumes "\<not> sublist ''local:'' now" and "linker = LD_CLANG \<or> linker = LD_MSVC"
  shows "\<not> sublist ''local:'' (get_export_header linker now)"
proof -
  define P where
    "P = ''# File generated by thermopack/addon/pyUtils/exports/export_list.py\<newline># Time stamp: ''"
  define H where
    "H = (if linker = LD_CLANG then ''\<newline># Explicit list of symbols to be exported''
          else ''\<newline>; @NAME@.def : Declares the module parameters.\<newline>\<newline>LIBRARY\<newline>\<newline>EXPORTS'')"
  have hdr: "get_export_header linker now = P @ now @ H"
    using assms(2) by (auto simp: get_export_header_def P_def H_def linker_distinct)
  have H: "\<not> sublist ''local:'' H" "H \<noteq> []" "hd H \<notin> set (tl ''local:'')"
    by (simp_all add: H_def no_local_in_fixed_text)
  have P: "\<not> sublist ''local:'' P" "P \<noteq> []" "last P \<notin> set (butlast ''local:'')"
    by (simp_all add: P_def no_local_in_fixed_text)
  have "\<not> sublist ''local:'' (now @ H)"
    using assms(1) H by (rule not_sublist_append_hd)
  with P(1) have "\<not> sublist ''local:'' (P @ now @ H)"
    using P(2,3) by (rule not_sublist_append_last)
  then show ?thesis unfolding hdr .
qed

lemma no_local_in_text:
  assumes names: "\<And>e. e \<in> set exps \<Longrightarrow> \<not> sublist ''local:'' (get_export_statement compiler e)"
    and now: "\<not> sublist ''local:'' now"
    and linker: "linker = LD_CLANG \<or> linker = LD_MSVC"
  shows "\<not> sublist ''local:'' (def_file_text compiler linker now exps)"
proof -
  have lines: "def_file_lines compiler linker now exps =
      get_export_header linker now # map (\<lambda>e. [CHR 0x09] @ get_export_statement compiler e) exps"
    using linker by (auto simp: def_file_lines_clang def_file_lines_msvc)
  have each: "\<not> sublist ''local:'' l" if "l \<in> set (def_file_lines compiler linker now exps)" for l
  proof (cases "l = get_export_header linker now")
    case True
    with now linker show ?thesis by (simp add: no_local_in_header)
  next
    case False
    with that lines obtain e where e: "e \<in> set exps" and l: "l = [CHR 0x09] @ get_export_statement compiler e"
      by auto
    have "\<not> sublist ''local:'' [CHR 0x09]" by (simp add: sublist_Cons_right)
    then have "\<not> sublist ''local:'' ([CHR 0x09] @ get_export_statement compiler e)"
      using names [OF e] by (rule not_sublist_append_last) simp_all
    with l show ?thesis by simp
  qed
  have "\<not> sublist ''local:'' (concat (map (\<lambda>l. l @ ''\<newline>'') (def_file_lines compiler linker now exps)))"
  proof (rule not_sublist_concat)
    show "''local:'' \<noteq> []" by simp
  next
    fix x
    assume "x \<in> set (map (\<lambda>l. l @ ''\<newline>'') (def_file_lines compiler linker now exps))"
    then obtain l where l: "l \<in> set (def_file_lines compiler linker now exps)" and x: "x = l @ ''\<newline>''"
      by auto
    have "\<not> sublist ''local:'' ''\<newline>''" by (simp add: sublist_Cons_right)
    with each [OF l] have "\<not> sublist ''local:'' (l @ ''\<newline>'')"
      by (rule not_sublist_append_hd) simp_all
    with x show "\<not> sublist ''local:'' x \<and> x \<noteq> [] \<and> last x \<notin> set (butlast ''local:'')"
      by simp
  qed
  then show ?thesis unfolding def_file_text_concat .
qed

lemma def_file_text_shape:
  assumes "linker \<in> {LD_GCC, LD_CLANG, LD_MSVC}"
  shows "def_file_text compiler linker now exps =
           get_export_header linker now @ ''\<newline>''
           @ concat (map (\<lambda>e. [CHR 0x09] @ get_export_statement compiler e
                                @ (if linker = LD_GCC then '';'' else '''') @ ''\<newline>'') exps)
           @ (case get_export_footer linker of None \<Rightarrow> [] | Some f \<Rightarrow> f @ ''\<newline>'')"
  using assms
  by (elim insertE emptyE)
    (simp_all add: def_file_text_concat def_file_lines_gcc def_file_lines_clang
      def_file_lines_msvc get_export_footer_def linker_distinct comp_def)

section \<open>The mangling resolver\<close>

text \<open>
  C1. With the module present, the resolver returns the compiler's form: GNU gives
  \<^verbatim>\<open>"__" + module + "_MOD_" + method\<close>, IFORT gives \<^verbatim>\<open>module + "_mp_" + method + "_"\<close>,
  PGF90 gives \<^verbatim>\<open>module + "_" + method + "_"\<close> and GENERIC gives \<^verbatim>\<open>"*" + method + "*"\<close>,
  whatever the module name and the binding flag are. For module \<^verbatim>\<open>eos\<close> and method
  \<^verbatim>\<open>zfac\<close> the four results are \<^verbatim>\<open>__eos_MOD_zfac\<close>, \<^verbatim>\<open>eos_mp_zfac_\<close>,
  \<^verbatim>\<open>eos_zfac_\<close> and \<^verbatim>\<open>*zfac*\<close>.
\<close>

theorem get_export_statement_module_present:
  "get_export_statement GNU \<lparr>method = s, module = Some m, isBindC = b\<rparr> = ''__'' @ m @ ''_MOD_'' @ s
   \<and> get_export_statement IFORT \<lparr>method = s, module = Some m, isBindC = b\<rparr> = m @ ''_mp_'' @ s @ ''_''
   \<and> get_export_statement PGF90 \<lparr>method = s, module = Some m, isBindC = b\<rparr> = m @ ''_'' @ s @ ''_''
   \<and> get_export_statement GENERIC \<lparr>method = s, module = Some m, isBindC = b\<rparr> = ''*'' @ s @ ''*''
   \<and> get_export_statement GNU \<lparr>method = ''zfac'', module = Some ''eos'', isBindC = b\<rparr> = ''__eos_MOD_zfac''
   \<and> get_export_statement IFORT \<lparr>method = ''zfac'', module = Some ''eos'', isBindC = b\<rparr> = ''eos_mp_zfac_''
   \<and> get_export_statement PGF90 \<lparr>method = ''zfac'', module = Some ''eos'', isBindC = b\<rparr> = ''eos_zfac_''
   \<and> get_export_statement GENERIC \<lparr>method = ''zfac'', module = Some ''eos'', isBindC = b\<rparr> = ''*zfac*''"
  by (simp add: get_export_statement_def compiler_defs)

text \<open>
  C2. With the module absent, the resolver returns the method name unchanged when the
  symbol is bound to C, and the method name followed by an underscore when it is not,
  for every compiler identity (recognised or not).
\<close>

theorem get_export_statement_module_absent:
  "get_export_statement compiler \<lparr>method = s, module = None, isBindC = True\<rparr> = s
   \<and> get_export_statement compiler \<lparr>method = s, module = None, isBindC = False\<rparr> = s @ ''_''"
  by (simp add: get_export_statement_def)

text \<open>
  C10. With the module present, the result does not depend on the binding flag, for
  every compiler identity: two declarations that differ in \<^verbatim>\<open>isBindC\<close> only resolve to
  the same name, so a declaration with a module and \<^verbatim>\<open>isBindC\<close> true is mangled by the
  module rule like any other.
\<close>

theorem get_export_statement_ignores_isBindC:
  "get_export_statement compiler \<lparr>method = s, module = Some m, isBindC = b1\<rparr>
     = get_export_statement compiler \<lparr>method = s, module = Some m, isBindC = b2\<rparr>
   \<and> get_export_statement GNU \<lparr>method = s, module = Some m, isBindC = True\<rparr>
     = ''__'' @ m @ ''_MOD_'' @ s"
  by (simp add: get_export_statement_def)

section \<open>Identities outside the named constants\<close>

text \<open>
  C3 as the specification states it: an identity outside the named constants makes the
  generation fail and no file is produced. The source has no such check. Counterexample:
  with compiler 5 and the GCC linker the file is written, its body line for
  \<^verbatim>\<open>eos.zfac\<close> decorating the empty name; with linker 7 the file is written with the
  first two header lines only.
\<close>

theorem unrecognised_identity_counterexample:
  "files (write_def_file 5 LD_GCC ''out.version'' ''T''
            \<lparr>exports = [\<lparr>method = ''zfac'', module = Some ''eos'', isBindC = False\<rparr>],
             files = Map.empty\<rparr>) ''out.version''
     = Some (''# File generated by thermopack/addon/pyUtils/exports/export_list.py\<newline># Time stamp: T\<newline>libthermopack {\<newline># Explicit list of symbols to be exported\<newline>  global:\<newline>''
             @ [CHR 0x09] @ '';\<newline>\<newline>  local: *;      # hide everything else\<newline>};\<newline>'')
   \<and> files (write_def_file GNU 7 ''out.def'' ''T''
            \<lparr>exports = [\<lparr>method = ''zfac'', module = Some ''eos'', isBindC = False\<rparr>],
             files = Map.empty\<rparr>) ''out.def''
     = Some ''# File generated by thermopack/addon/pyUtils/exports/export_list.py\<newline># Time stamp: T\<newline>''"
  by (simp add: write_def_file_def def_file_text_def def_file_lines_def get_export_header_def
      get_export_footer_def get_export_statement_def compiler_defs linker_defs)

text \<open>
  C3 (amended). Nothing fails on an identity outside the named constants. For a compiler
  outside GNU, IFORT, PGF90 and GENERIC the resolver returns the empty string for a
  declaration with a module; with one of the three linkers the manifest is still written
  in full, the header, one body line for each declaration and the footer of LD_GCC, and
  the body line of every declaration with a module decorates the empty name
  (\<^verbatim>\<open>"\t;"\<close> for LD_GCC, \<^verbatim>\<open>"\t"\<close> for LD_CLANG and LD_MSVC). For a linker outside
  LD_GCC, LD_CLANG and LD_MSVC, whatever the compiler and the registry are, the manifest
  is still written and holds the two provenance lines and nothing else.
\<close>

theorem unrecognised_identity_falls_back:
  "(compiler \<notin> {GNU, IFORT, PGF90, GENERIC} \<longrightarrow>
      get_export_statement compiler \<lparr>method = s, module = Some m, isBindC = b\<rparr> = '''')
   \<and> (compiler \<notin> {GNU, IFORT, PGF90, GENERIC} \<and> linker \<in> {LD_GCC, LD_CLANG, LD_MSVC} \<longrightarrow>
      files (write_def_file compiler linker filename now w) filename
        = Some (get_export_header linker now @ ''\<newline>''
                @ concat (map (\<lambda>e. [CHR 0x09]
                                @ (if module e = None then get_export_statement compiler e else '''')
                                @ (if linker = LD_GCC then '';'' else '''') @ ''\<newline>'')
                           (exports w))
                @ (if linker = LD_GCC
                   then ''\<newline>  local: *;      # hide everything else\<newline>};\<newline>'' else '''')))
   \<and> (other \<notin> {LD_GCC, LD_CLANG, LD_MSVC} \<longrightarrow>
      files (write_def_file compiler other filename now w) filename
        = Some (''# File generated by thermopack/addon/pyUtils/exports/export_list.py\<newline># Time stamp: ''
                @ now @ ''\<newline>''))"
proof (intro conjI impI)
  assume "compiler \<notin> {GNU, IFORT, PGF90, GENERIC}"
  then show "get_export_statement compiler \<lparr>method = s, module = Some m, isBindC = b\<rparr> = ''''"
    by (simp add: get_export_statement_def)
next
  assume h: "compiler \<notin> {GNU, IFORT, PGF90, GENERIC} \<and> linker \<in> {LD_GCC, LD_CLANG, LD_MSVC}"
  then have name: "get_export_statement compiler e =
      (if module e = None then get_export_statement compiler e else '''')" for e
    by (cases "module e") (simp_all add: get_export_statement_def)
  have foot: "(case get_export_footer linker of None \<Rightarrow> [] | Some f \<Rightarrow> f @ ''\<newline>'') =
      (if linker = LD_GCC
       then ''\<newline>  local: *;      # hide everything else\<newline>};\<newline>'' else '''')"
    by (simp add: get_export_footer_def)
  have "def_file_text compiler linker now (exports w) =
      get_export_header linker now @ ''\<newline>''
      @ concat (map (\<lambda>e. [CHR 0x09] @ get_export_statement compiler e
                           @ (if linker = LD_GCC then '';'' else '''') @ ''\<newline>'') (exports w))
      @ (if linker = LD_GCC
         then ''\<newline>  local: *;      # hide everything else\<newline>};\<newline>'' else '''')"
    using h by (simp only: def_file_text_shape foot)
  also have "map (\<lambda>e. [CHR 0x09] @ get_export_statement compiler e
                           @ (if linker = LD_GCC then '';'' else '''') @ ''\<newline>'') (exports w)
      = map (\<lambda>e. [CHR 0x09]
                  @ (if module e = None then get_export_statement compiler e else '''')
                  @ (if linker = LD_GCC then '';'' else '''') @ ''\<newline>'') (exports w)"
    by (rule map_cong [OF refl]) (subst name, rule refl)
  finally show "files (write_def_file compiler linker filename now w) filename
        = Some (get_export_header linker now @ ''\<newline>''
                @ concat (map (\<lambda>e. [CHR 0x09]
                                @ (if module e = None then get_export_statement compiler e else '''')
                                @ (if linker = LD_GCC then '';'' else '''') @ ''\<newline>'')
                           (exports w))
                @ (if linker = LD_GCC
                   then ''\<newline>  local: *;      # hide everything else\<newline>};\<newline>'' else ''''))"
    by (simp only: files_write_def_file fun_upd_same)
next
  assume o: "other \<notin> {LD_GCC, LD_CLANG, LD_MSVC}"
  then have "get_export_header other now =
      ''# File generated by thermopack/addon/pyUtils/exports/export_list.py\<newline># Time stamp: '' @ now"
    by (simp add: get_export_header_def)
  with o show "files (write_def_file compiler other filename now w) filename
        = Some (''# File generated by thermopack/addon/pyUtils/exports/export_list.py\<newline># Time stamp: ''
                @ now @ ''\<newline>'')"
    by (simp add: files_write_def_file def_file_text_concat def_file_lines_other)
qed

theorem unrecognised_identity_falls_back_witness:
  "(5::int) \<notin> {GNU, IFORT, PGF90, GENERIC}
   \<and> LD_GCC \<in> {LD_GCC, LD_CLANG, LD_MSVC}
   \<and> (7::int) \<notin> {LD_GCC, LD_CLANG, LD_MSVC}
   \<and> get_export_statement 5 \<lparr>method = ''zfac'', module = Some ''eos'', isBindC = False\<rparr> = ''''
   \<and> files (write_def_file 5 LD_GCC ''out.def'' ''T''
        \<lparr>exports = [\<lparr>method = ''zfac'', module = Some ''eos'', isBindC = False\<rparr>,
                    \<lparr>method = ''thermopack_init_c'', module = None, isBindC = True\<rparr>],
         files = Map.empty\<rparr>) ''out.def''
        = Some (''# File generated by thermopack/addon/pyUtils/exports/export_list.py\<newline># Time stamp: T\<newline>libthermopack {\<newline># Explicit list of symbols to be exported\<newline>  global:\<newline>''
                @ [CHR 0x09] @ '';\<newline>''
                @ [CHR 0x09] @ ''thermopack_init_c;\<newline>''
                @ ''\<newline>  local: *;      # hide everything else\<newline>};\<newline>'')
   \<and> files (write_def_file 5 7 ''out.def'' ''T''
        \<lparr>exports = [\<lparr>method = ''zfac'', module = Some ''eos'', isBindC = False\<rparr>,
                    \<lparr>method = ''thermopack_init_c'', module = None, isBindC = True\<rparr>],
         files = Map.empty\<rparr>) ''out.def''
        = Some ''# File generated by thermopack/addon/pyUtils/exports/export_list.py\<newline># Time stamp: T\<newline>''"
  using unrecognised_identity_falls_back
    [of 5 "''zfac''" "''eos''" False LD_GCC "''out.def''" "''T''"
      "\<lparr>exports = [\<lparr>method = ''zfac'', module = Some ''eos'', isBindC = False\<rparr>,
                   \<lparr>method = ''thermopack_init_c'', module = None, isBindC = True\<rparr>],
        files = Map.empty\<rparr>" 7]
  by (simp add: compiler_defs linker_defs get_export_statement_def get_export_header_def)

section \<open>Registration\<close>

text \<open>
  C4 as the specification states it: a declaration with a module and \<^verbatim>\<open>isBindC\<close> true
  is rejected when it is registered. Counterexample: \<^verbatim>\<open>append_export\<close> appends it to
  the empty registry as it is.
\<close>

theorem append_export_counterexample:
  "exports (append_export ''zfac'' (Some ''eos'') True \<lparr>exports = [], files = Map.empty\<rparr>)
     = [\<lparr>method = ''zfac'', module = Some ''eos'', isBindC = True\<rparr>]"
  by (simp add: append_export_def)

text \<open>
  C4 (amended). \<^verbatim>\<open>append_export\<close> checks nothing: it appends every declaration as it
  is given, also one with a module and \<^verbatim>\<open>isBindC\<close> true, and leaves the files alone.
  The registry that the module builds with its own 112 calls holds no declaration with
  both a module and \<^verbatim>\<open>isBindC\<close> true.
\<close>

theorem append_export_accepts_all:
  "exports (append_export meth modl bindc w)
     = exports w @ [\<lparr>method = meth, module = modl, isBindC = bindc\<rparr>]
   \<and> files (append_export meth modl bindc w) = files w
   \<and> \<not> (\<exists>e \<in> set (exports (module_init fs)). module e \<noteq> None \<and> isBindC e)"
proof -
  have "list_all (\<lambda>e. \<not> (module e \<noteq> None \<and> isBindC e)) (exports (module_init fs))"
    using registrations_shape
    by (simp add: exports_module_init list.pred_map comp_def case_prod_unfold)
  then have "\<not> (\<exists>e \<in> set (exports (module_init fs)). module e \<noteq> None \<and> isBindC e)"
    unfolding list_all_iff by blast
  then show ?thesis by (simp add: append_export_def)
qed

section \<open>Body lines and footer of each linker\<close>

text \<open>
  C5. For every registry and compiler, that is for every sequence of resolved names:
  the GCC manifest is the header, one line \<^verbatim>\<open>"\t" + name + ";"\<close> for each name, and the
  footer block; the declaration \<^verbatim>\<open>thermopack_init_c\<close> (no module, bound to C) gives
  the body line \<^verbatim>\<open>"\tthermopack_init_c;"\<close>. The last block of the GCC manifest ends
  with \<^verbatim>\<open>"  local: *;      # hide everything else\n};"\<close>, and so does the text of the
  file, before the newline that the writer puts after every block. The Clang and MSVC
  manifests are the header and one line \<^verbatim>\<open>"\t" + name\<close> for each name, with no
  terminator and no footer; when no resolved name and not the time holds the text
  \<^verbatim>\<open>local:\<close>, the text of the file holds it nowhere.
\<close>

theorem emitter_body_and_footer:
  "def_file_lines compiler LD_GCC now exps =
     get_export_header LD_GCC now
       # map (\<lambda>e. [CHR 0x09] @ get_export_statement compiler e @ '';'') exps
       @ [''\<newline>  local: *;      # hide everything else\<newline>};'']
   \<and> def_file_lines compiler LD_GCC now
         [\<lparr>method = ''thermopack_init_c'', module = None, isBindC = True\<rparr>] ! 1
       = [CHR 0x09] @ ''thermopack_init_c;''
   \<and> suffix ''  local: *;      # hide everything else\<newline>};''
         (last (def_file_lines compiler LD_GCC now exps))
   \<and> suffix ''  local: *;      # hide everything else\<newline>};\<newline>''
         (def_file_text compiler LD_GCC now exps)
   \<and> def_file_lines compiler LD_CLANG now exps =
       get_export_header LD_CLANG now
         # map (\<lambda>e. [CHR 0x09] @ get_export_statement compiler e) exps
   \<and> def_file_lines compiler LD_MSVC now exps =
       get_export_header LD_MSVC now
         # map (\<lambda>e. [CHR 0x09] @ get_export_statement compiler e) exps
   \<and> get_export_footer LD_CLANG = None
   \<and> get_export_footer LD_MSVC = None
   \<and> ((\<forall>e \<in> set exps. \<not> sublist ''local:'' (get_export_statement compiler e))
        \<and> \<not> sublist ''local:'' now \<longrightarrow>
          \<not> sublist ''local:'' (def_file_text compiler LD_CLANG now exps)
          \<and> \<not> sublist ''local:'' (def_file_text compiler LD_MSVC now exps))"
proof -
  have gcc: "def_file_lines compiler LD_GCC now exps =
     get_export_header LD_GCC now
       # map (\<lambda>e. [CHR 0x09] @ get_export_statement compiler e @ '';'') exps
       @ [''\<newline>  local: *;      # hide everything else\<newline>};'']"
    by (rule def_file_lines_gcc)
  have line1: "def_file_lines compiler LD_GCC now
         [\<lparr>method = ''thermopack_init_c'', module = None, isBindC = True\<rparr>] ! 1
       = [CHR 0x09] @ ''thermopack_init_c;''"
    by (simp add: def_file_lines_gcc get_export_statement_def)
  have "last (def_file_lines compiler LD_GCC now exps) =
      ''\<newline>'' @ ''  local: *;      # hide everything else\<newline>};''"
    by (simp add: def_file_lines_gcc)
  then have suf_line: "suffix ''  local: *;      # hide everything else\<newline>};''
         (last (def_file_lines compiler LD_GCC now exps))"
    by (rule suffixI)
  have "def_file_text compiler LD_GCC now exps =
      (concat (map (\<lambda>l. l @ ''\<newline>'')
        (get_export_header LD_GCC now
          # map (\<lambda>e. [CHR 0x09] @ get_export_statement compiler e @ '';'') exps))
       @ ''\<newline>'') @ ''  local: *;      # hide everything else\<newline>};\<newline>''"
    by (simp add: def_file_text_concat def_file_lines_gcc)
  then have suf_text: "suffix ''  local: *;      # hide everything else\<newline>};\<newline>''
         (def_file_text compiler LD_GCC now exps)"
    by (rule suffixI)
  have clang: "def_file_lines compiler LD_CLANG now exps =
       get_export_header LD_CLANG now
         # map (\<lambda>e. [CHR 0x09] @ get_export_statement compiler e) exps"
    by (rule def_file_lines_clang)
  have msvc: "def_file_lines compiler LD_MSVC now exps =
       get_export_header LD_MSVC now
         # map (\<lambda>e. [CHR 0x09] @ get_export_statement compiler e) exps"
    by (rule def_file_lines_msvc)
  have foot_clang: "get_export_footer LD_CLANG = None"
    by (simp add: get_export_footer_def linker_distinct)
  have foot_msvc: "get_export_footer LD_MSVC = None"
    by (simp add: get_export_footer_def linker_distinct)
  have nol: "(\<forall>e \<in> set exps. \<not> sublist ''local:'' (get_export_statement compiler e))
        \<and> \<not> sublist ''local:'' now \<longrightarrow>
          \<not> sublist ''local:'' (def_file_text compiler LD_CLANG now exps)
          \<and> \<not> sublist ''local:'' (def_file_text compiler LD_MSVC now exps)"
  proof (intro impI conjI; elim conjE)
    assume a: "\<forall>e \<in> set exps. \<not> sublist ''local:'' (get_export_statement compiler e)"
      and n: "\<not> sublist ''local:'' now"
    from a have a': "\<And>e. e \<in> set exps \<Longrightarrow> \<not> sublist ''local:'' (get_export_statement compiler e)"
      by (rule bspec)
    show "\<not> sublist ''local:'' (def_file_text compiler LD_CLANG now exps)"
      by (rule no_local_in_text) (use a' n in simp_all)
    show "\<not> sublist ''local:'' (def_file_text compiler LD_MSVC now exps)"
      by (rule no_local_in_text) (use a' n in simp_all)
  qed
  show ?thesis
    by (intro conjI) (fact gcc line1 suf_line suf_text clang msvc foot_clang foot_msvc nol)+
qed

theorem emitter_body_and_footer_witness:
  "\<not> sublist ''local:''
       (get_export_statement GENERIC \<lparr>method = ''thermopack_init_c'', module = None, isBindC = True\<rparr>)
   \<and> \<not> sublist ''local:''
       (get_export_statement GENERIC \<lparr>method = ''zfac'', module = Some ''eos'', isBindC = False\<rparr>)
   \<and> \<not> sublist ''local:'' ''2024-05-01T10:20:30.123456''
   \<and> \<not> sublist ''local:''
       (def_file_text GENERIC LD_CLANG ''2024-05-01T10:20:30.123456''
          [\<lparr>method = ''thermopack_init_c'', module = None, isBindC = True\<rparr>,
           \<lparr>method = ''zfac'', module = Some ''eos'', isBindC = False\<rparr>])
   \<and> \<not> sublist ''local:''
       (def_file_text GENERIC LD_MSVC ''2024-05-01T10:20:30.123456''
          [\<lparr>method = ''thermopack_init_c'', module = None, isBindC = True\<rparr>,
           \<lparr>method = ''zfac'', module = Some ''eos'', isBindC = False\<rparr>])"
  using emitter_body_and_footer
    [of GENERIC "''2024-05-01T10:20:30.123456''"
      "[\<lparr>method = ''thermopack_init_c'', module = None, isBindC = True\<rparr>,
        \<lparr>method = ''zfac'', module = Some ''eos'', isBindC = False\<rparr>]"]
  by (simp add: get_export_statement_def compiler_defs sublist_Cons_right)

section \<open>The body of a manifest\<close>

text \<open>
  C6. For each of the three linkers, and for every compiler and registry, the manifest
  that is written to the file is the header, then one line for each declaration of the
  registry in the order of the registry, then the footer if the linker has one: the text
  of the file is the header and a newline, the decorated names each followed by a
  newline, one after the other in registry order, and the footer and a newline. The
  same holds of the blocks before they are written: the block at position \<open>i + 1\<close> is the
  decorated name of declaration \<open>i\<close>, so equal declarations give equal lines. Nothing
  is dropped, merged or moved.
\<close>

theorem body_follows_registry:
  assumes "linker \<in> {LD_GCC, LD_CLANG, LD_MSVC}"
  shows "files (write_def_file compiler linker filename now w) filename =
           Some (get_export_header linker now @ ''\<newline>''
                 @ concat (map (\<lambda>e. [CHR 0x09] @ get_export_statement compiler e
                                      @ (if linker = LD_GCC then '';'' else '''') @ ''\<newline>'')
                            (exports w))
                 @ (case get_export_footer linker of None \<Rightarrow> [] | Some f \<Rightarrow> f @ ''\<newline>''))
         \<and> def_file_text compiler linker now exps =
             get_export_header linker now @ ''\<newline>''
             @ concat (map (\<lambda>e. [CHR 0x09] @ get_export_statement compiler e
                                  @ (if linker = LD_GCC then '';'' else '''') @ ''\<newline>'') exps)
             @ (case get_export_footer linker of None \<Rightarrow> [] | Some f \<Rightarrow> f @ ''\<newline>'')
         \<and> def_file_lines compiler linker now exps =
           [get_export_header linker now]
           @ map (\<lambda>e. [CHR 0x09] @ get_export_statement compiler e
                        @ (if linker = LD_GCC then '';'' else '''')) exps
           @ (case get_export_footer linker of None \<Rightarrow> [] | Some f \<Rightarrow> [f])
         \<and> length (def_file_lines compiler linker now exps) =
             1 + length exps + (if linker = LD_GCC then 1 else 0)
         \<and> (\<forall>i < length exps.
               def_file_lines compiler linker now exps ! Suc i =
                 [CHR 0x09] @ get_export_statement compiler (exps ! i)
                 @ (if linker = LD_GCC then '';'' else ''''))
         \<and> (\<forall>i < length exps. \<forall>j < length exps. exps ! i = exps ! j \<longrightarrow>
               def_file_lines compiler linker now exps ! Suc i =
               def_file_lines compiler linker now exps ! Suc j)"
proof -
  let ?deco = "\<lambda>e. [CHR 0x09] @ get_export_statement compiler e
                    @ (if linker = LD_GCC then '';'' else '''')"
  let ?foot = "case get_export_footer linker of None \<Rightarrow> [] | Some f \<Rightarrow> [f]"
  have written: "files (write_def_file compiler linker filename now w) filename =
           Some (get_export_header linker now @ ''\<newline>''
                 @ concat (map (\<lambda>e. [CHR 0x09] @ get_export_statement compiler e
                                      @ (if linker = LD_GCC then '';'' else '''') @ ''\<newline>'')
                            (exports w))
                 @ (case get_export_footer linker of None \<Rightarrow> [] | Some f \<Rightarrow> f @ ''\<newline>''))"
    by (simp only: files_write_def_file fun_upd_same def_file_text_shape [OF assms])
  have whole: "def_file_text compiler linker now exps =
             get_export_header linker now @ ''\<newline>''
             @ concat (map (\<lambda>e. [CHR 0x09] @ get_export_statement compiler e
                                  @ (if linker = LD_GCC then '';'' else '''') @ ''\<newline>'') exps)
             @ (case get_export_footer linker of None \<Rightarrow> [] | Some f \<Rightarrow> f @ ''\<newline>'')"
    using assms by (rule def_file_text_shape)
  have shape: "def_file_lines compiler linker now exps =
      [get_export_header linker now] @ map ?deco exps @ ?foot"
    using assms
    by (elim insertE emptyE)
      (simp_all add: def_file_lines_gcc def_file_lines_clang def_file_lines_msvc
        get_export_footer_def linker_distinct)
  have len: "length (def_file_lines compiler linker now exps) =
      1 + length exps + (if linker = LD_GCC then 1 else 0)"
    unfolding shape by (simp add: get_export_footer_def)
  have nth: "def_file_lines compiler linker now exps ! Suc i = ?deco (exps ! i)"
    if "i < length exps" for i
    unfolding shape using that by (simp add: nth_append)
  have dup: "\<forall>i < length exps. \<forall>j < length exps. exps ! i = exps ! j \<longrightarrow>
               def_file_lines compiler linker now exps ! Suc i =
               def_file_lines compiler linker now exps ! Suc j"
    by (simp add: nth)
  from nth have nth': "\<forall>i < length exps.
               def_file_lines compiler linker now exps ! Suc i = ?deco (exps ! i)"
    by blast
  show ?thesis
    by (intro conjI) (fact written whole shape len nth' dup)+
qed

theorem body_follows_registry_witness:
  "LD_GCC \<in> {LD_GCC, LD_CLANG, LD_MSVC}
   \<and> files (write_def_file GENERIC LD_GCC ''libthermopack_export.version'' ''T''
        \<lparr>exports = [\<lparr>method = ''thermopack_init_c'', module = None, isBindC = True\<rparr>,
                    \<lparr>method = ''thermopack_init_c'', module = None, isBindC = True\<rparr>,
                    \<lparr>method = ''zfac'', module = Some ''eos'', isBindC = False\<rparr>],
         files = Map.empty\<rparr>) ''libthermopack_export.version''
      = Some (get_export_header LD_GCC ''T'' @ ''\<newline>''
              @ [CHR 0x09] @ ''thermopack_init_c;\<newline>''
              @ [CHR 0x09] @ ''thermopack_init_c;\<newline>''
              @ [CHR 0x09] @ ''*zfac*;\<newline>''
              @ ''\<newline>  local: *;      # hide everything else\<newline>};\<newline>'')
   \<and> def_file_lines GENERIC LD_GCC ''T''
        [\<lparr>method = ''thermopack_init_c'', module = None, isBindC = True\<rparr>,
         \<lparr>method = ''thermopack_init_c'', module = None, isBindC = True\<rparr>,
         \<lparr>method = ''zfac'', module = Some ''eos'', isBindC = False\<rparr>]
      = [get_export_header LD_GCC ''T'',
         CHR 0x09 # ''thermopack_init_c;'',
         CHR 0x09 # ''thermopack_init_c;'',
         CHR 0x09 # ''*zfac*;'',
         ''\<newline>  local: *;      # hide everything else\<newline>};'']"
  using body_follows_registry
    [of LD_GCC GENERIC "''libthermopack_export.version''" "''T''"
      "\<lparr>exports = [\<lparr>method = ''thermopack_init_c'', module = None, isBindC = True\<rparr>,
                   \<lparr>method = ''thermopack_init_c'', module = None, isBindC = True\<rparr>,
                   \<lparr>method = ''zfac'', module = Some ''eos'', isBindC = False\<rparr>],
        files = Map.empty\<rparr>"
      "[\<lparr>method = ''thermopack_init_c'', module = None, isBindC = True\<rparr>,
        \<lparr>method = ''thermopack_init_c'', module = None, isBindC = True\<rparr>,
        \<lparr>method = ''zfac'', module = Some ''eos'', isBindC = False\<rparr>]"]
  by (simp add: get_export_statement_def get_export_footer_def compiler_defs)

section \<open>The time stamp\<close>

text \<open>
  C7. The text of a manifest is a function of the declarations, the compiler, the linker
  and the time read from the clock, and the time enters it in one place only: the text
  is the tool line, \<^verbatim>\<open># Time stamp: \<close>, the time, and then a rest that is the same for
  every time (it is the rest of the text generated with the empty time). Two runs on the
  same declarations, compiler and linker therefore write the same bytes but for the time
  on the time stamp line, and the file left on disk is that text, whatever was there.
\<close>

theorem def_file_text_time_stamp_only:
  "def_file_text compiler linker now exps =
     ''# File generated by thermopack/addon/pyUtils/exports/export_list.py\<newline># Time stamp: ''
     @ now
     @ drop (length ''# File generated by thermopack/addon/pyUtils/exports/export_list.py\<newline># Time stamp: '')
         (def_file_text compiler linker [] exps)
   \<and> hd (drop (length ''# File generated by thermopack/addon/pyUtils/exports/export_list.py\<newline># Time stamp: '')
         (def_file_text compiler linker [] exps)) = CHR ''\<newline>''
   \<and> files (write_def_file compiler linker filename now w) filename =
       Some (def_file_text compiler linker now (exports w))"
proof -
  define P where
    "P = ''# File generated by thermopack/addon/pyUtils/exports/export_list.py\<newline># Time stamp: ''"
  define H where
    "H = (if linker = LD_GCC then
            ''\<newline>libthermopack {\<newline># Explicit list of symbols to be exported\<newline>  global:''
          else if linker = LD_CLANG then
            ''\<newline># Explicit list of symbols to be exported''
          else if linker = LD_MSVC then
            ''\<newline>; @NAME@.def : Declares the module parameters.\<newline>\<newline>LIBRARY\<newline>\<newline>EXPORTS''
          else [])"
  have hdr: "get_export_header linker t = P @ t @ H" for t
    by (simp add: get_export_header_def P_def H_def)
  have H: "H = [] \<or> hd H = CHR ''\<newline>''"
    by (simp add: H_def)
  obtain R where lines: "\<And>t. def_file_lines compiler linker t exps = get_export_header linker t # R"
    by (cases "get_export_footer linker") (simp_all add: def_file_lines_def export_loop_eq)
  define C where "C = concat (map (\<lambda>l. l @ ''\<newline>'') R)"
  have whole: "def_file_text compiler linker t exps = P @ t @ H @ ''\<newline>'' @ C" for t
    by (simp add: def_file_text_concat lines hdr C_def)
  have rest: "drop (length P) (def_file_text compiler linker [] exps) = H @ ''\<newline>'' @ C"
    by (simp add: whole)
  have first: "hd (H @ ''\<newline>'' @ C) = CHR ''\<newline>''"
    using H by (cases H) auto
  have "def_file_text compiler linker now exps =
          P @ now @ drop (length P) (def_file_text compiler linker [] exps)
        \<and> hd (drop (length P) (def_file_text compiler linker [] exps)) = CHR ''\<newline>''
        \<and> files (write_def_file compiler linker filename now w) filename =
            Some (def_file_text compiler linker now (exports w))"
    unfolding rest first by (simp add: whole files_write_def_file)
  then show ?thesis
    unfolding P_def .
qed

section \<open>The entry point\<close>

text \<open>
  C8. The entry point writes three manifests and nothing else: the files after it are
  the files before it with \<^verbatim>\<open>libthermopack_export.version\<close> set to the GENERIC/GCC
  text, \<^verbatim>\<open>libthermopack_export.symbols\<close> set to the GENERIC/Clang text and
  \<^verbatim>\<open>thermopack.def\<close> set to the IFORT/MSVC text, all three of the same registry; every
  other path is as it was. A run of the script does so on the registry the module builds.
\<close>

theorem main_writes_three_manifests:
  "files (main now1 now2 now3 w) =
     (files w)
       (''libthermopack_export.version'' \<mapsto> def_file_text GENERIC LD_GCC now1 (exports w),
        ''libthermopack_export.symbols'' \<mapsto> def_file_text GENERIC LD_CLANG now2 (exports w),
        ''thermopack.def'' \<mapsto> def_file_text IFORT LD_MSVC now3 (exports w))
   \<and> dom (files (main now1 now2 now3 w)) =
       dom (files w) \<union> {''libthermopack_export.version'', ''libthermopack_export.symbols'',
                         ''thermopack.def''}
   \<and> exports (main now1 now2 now3 w) = exports w
   \<and> files (script now1 now2 now3 fs) =
       fs (''libthermopack_export.version'' \<mapsto>
             def_file_text GENERIC LD_GCC now1 (exports (module_init fs)),
           ''libthermopack_export.symbols'' \<mapsto>
             def_file_text GENERIC LD_CLANG now2 (exports (module_init fs)),
           ''thermopack.def'' \<mapsto>
             def_file_text IFORT LD_MSVC now3 (exports (module_init fs)))"
proof -
  have f: "files (main now1 now2 now3 v) =
     (files v)
       (''libthermopack_export.version'' \<mapsto> def_file_text GENERIC LD_GCC now1 (exports v),
        ''libthermopack_export.symbols'' \<mapsto> def_file_text GENERIC LD_CLANG now2 (exports v),
        ''thermopack.def'' \<mapsto> def_file_text IFORT LD_MSVC now3 (exports v))" for v
    by (simp only: main_def Let_def files_write_def_file exports_write_def_file)
  have e: "exports (main now1 now2 now3 w) = exports w"
    by (simp only: main_def Let_def exports_write_def_file)
  have d: "dom (files (main now1 now2 now3 w)) =
       dom (files w) \<union> {''libthermopack_export.version'', ''libthermopack_export.symbols'',
                         ''thermopack.def''}"
    unfolding f by (simp only: dom_fun_upd option.distinct if_False) blast
  have s: "files (script now1 now2 now3 fs) =
       fs (''libthermopack_export.version'' \<mapsto>
             def_file_text GENERIC LD_GCC now1 (exports (module_init fs)),
           ''libthermopack_export.symbols'' \<mapsto>
             def_file_text GENERIC LD_CLANG now2 (exports (module_init fs)),
           ''thermopack.def'' \<mapsto>
             def_file_text IFORT LD_MSVC now3 (exports (module_init fs)))"
    by (simp only: script_def f files_module_init)
  from f [of w] d e s show ?thesis by (intro conjI)
qed

section \<open>The registry is only read\<close>

text \<open>
  C9. Generating a manifest leaves the registry as it was: \<^verbatim>\<open>write_def_file\<close> returns
  the state with the same \<^verbatim>\<open>exports\<close>, for every compiler, linker, path and time, and
  so does any sequence of generation calls, in any order. (The resolver, the header and
  the footer are functions of their arguments: the source assigns to none of them.)
\<close>

theorem generation_keeps_registry:
  "exports (write_def_file compiler linker filename now w) = exports w
   \<and> exports (generate_all calls w) = exports w
   \<and> exports (main now1 now2 now3 w) = exports w"
proof -
  have "exports (generate_all calls v) = exports v" for v
    unfolding generate_all_def
    by (induction calls arbitrary: v) (auto simp: exports_write_def_file)
  then show ?thesis
    by (simp add: exports_write_def_file main_def)
qed

end
